theory Spec2Isabelle
  imports Complex_Main "HOL-Library.Option_ord"
begin

section \<open>Settings of \<^verbatim>\<open>export_three_dates_rgb8.js\<close>\<close>

text \<open>
  The script's numbers are JavaScript numbers; they are read here as reals (thresholds,
  metrics, distances) and as integers (timestamps in milliseconds since the epoch, day
  counts). The constants are the ones of the SETTINGS block (lines 14-27).
\<close>

definition preLookbackDays :: int where
  "preLookbackDays = 30"

definition postForwardDays :: int where
  "postForwardDays = 10"

definition cloudProbThresh :: real where
  "cloudProbThresh = 40"

definition maxCloudFrac :: real where
  "maxCloudFrac = 2 / 100"

definition minValidFrac :: real where
  "minValidFrac = 995 / 1000"

definition onFallbackNearestDays :: int where
  "onFallbackNearestDays = 3"

definition cloudTieTolerance :: real where
  "cloudTieTolerance = 3"

section \<open>Dates\<close>

text \<open>
  An \<^verbatim>\<open>ee.Date\<close> is a number of milliseconds since 1970-01-01T00:00 UTC.
  \<^verbatim>\<open>advance(n, 'day')\<close> adds \<open>n\<close> days of 86400000 ms; \<^verbatim>\<open>difference(start, 'day')\<close>
  is the floating-point quotient of the millisecond difference by the length of a day.
\<close>

type_synonym date = int

definition msPerDay :: int where
  "msPerDay = 86400000"

definition advance :: "date \<Rightarrow> int \<Rightarrow> date" where
  "advance t n = t + n * msPerDay"

definition difference :: "date \<Rightarrow> date \<Rightarrow> real" where
  "difference t start = real_of_int (t - start) / real_of_int msPerDay"

text \<open>
  \<^verbatim>\<open>ee.Date('YYYY-MM-dd')\<close> is midnight UTC of that day of the proleptic Gregorian
  calendar: the day number is computed from the civil date (years start in March, eras
  of 400 years), and \<open>civil_from_days\<close> is the inverse, which
  \<^verbatim>\<open>format('YYYY-MM-dd')\<close> prints.
\<close>

definition days_from_civil :: "int \<Rightarrow> int \<Rightarrow> int \<Rightarrow> int" where
  "days_from_civil y m d =
     (let y' = (if m \<le> 2 then y - 1 else y);
          era = y' div 400;
          yoe = y' - era * 400;
          doy = (153 * (if m > 2 then m - 3 else m + 9) + 2) div 5 + d - 1;
          doe = yoe * 365 + yoe div 4 - yoe div 100 + doy
      in era * 146097 + doe - 719468)"

definition civil_from_days :: "int \<Rightarrow> int \<times> int \<times> int" where
  "civil_from_days z0 =
     (let z = z0 + 719468;
          era = z div 146097;
          doe = z - era * 146097;
          yoe = (doe - doe div 1460 + doe div 36524 - doe div 146096) div 365;
          doy = doe - (365 * yoe + yoe div 4 - yoe div 100);
          mp = (5 * doy + 2) div 153;
          d = doy - (153 * mp + 2) div 5 + 1;
          m = (if mp < 10 then mp + 3 else mp - 9);
          y = yoe + era * 400
      in (if m \<le> 2 then y + 1 else y, m, d))"

definition ee_Date :: "int \<Rightarrow> int \<Rightarrow> int \<Rightarrow> date" where
  "ee_Date y m d = days_from_civil y m d * msPerDay"

definition format_ymd :: "date \<Rightarrow> int \<times> int \<times> int" where
  "format_ymd t = civil_from_days (t div msPerDay)"

definition targetDate :: date where
  "targetDate = ee_Date 2025 11 30"

section \<open>Rasters and images\<close>

text \<open>
  A band is seen through the export region only: either the pixels sampled there
  (\<open>None\<close> for a masked pixel) or a constant image, which has its value at every pixel.
  \<^verbatim>\<open>reduceRegion\<close> with \<^verbatim>\<open>ee.Reducer.mean()\<close> is the mean of the unmasked
  pixels and has no value when there is none.
\<close>

datatype raster = Pixels "real option list" | Constant real

fun valid_values :: "real option list \<Rightarrow> real list" where
  "valid_values [] = []"
| "valid_values (None # ps) = valid_values ps"
| "valid_values (Some v # ps) = v # valid_values ps"

fun reduce_mean :: "raster \<Rightarrow> real option" where
  "reduce_mean (Constant c) = Some c"
| "reduce_mean (Pixels ps) =
     (let vs = valid_values ps
      in if vs = [] then None else Some (sum_list vs / real (length vs)))"

text \<open>\<^verbatim>\<open>prob.gt(t)\<close>: 1 where the pixel exceeds \<open>t\<close>, else 0; the mask is kept.\<close>

fun raster_gt :: "real \<Rightarrow> raster \<Rightarrow> raster" where
  "raster_gt t (Constant c) = Constant (if c > t then 1 else 0)"
| "raster_gt t (Pixels ps) = Pixels (map (map_option (\<lambda>v. if v > t then 1 else 0)) ps)"

text \<open>\<^verbatim>\<open>band.mask()\<close>: the mask as an image of its own, 1 at a valid pixel and 0 at a masked one.\<close>

fun raster_mask :: "raster \<Rightarrow> raster" where
  "raster_mask (Constant c) = Constant 1"
| "raster_mask (Pixels ps) = Pixels (map (\<lambda>p. Some (case p of None \<Rightarrow> 0 | Some v \<Rightarrow> 1)) ps)"

text \<open>
  An image is a bag of bands and properties, each present or absent. The fields are the
  ones the script reads or sets: the property \<^verbatim>\<open>system:time_start\<close>, the scene's
  \<^verbatim>\<open>CLOUDY_PIXEL_PERCENTAGE\<close>, the s2cloudless image saved by the join under
  \<^verbatim>\<open>cloudprob\<close> (its \<^verbatim>\<open>probability\<close> band), the bands \<^verbatim>\<open>B2\<close> and
  \<^verbatim>\<open>probability\<close>, and the properties set by \<^verbatim>\<open>addMetrics\<close> and by the on-day
  selection.
\<close>

record image =
  time_start :: "int option"
  CLOUDY_PIXEL_PERCENTAGE :: "real option"
  cloudprob :: "raster option"
  B2 :: "raster option"
  probability :: "raster option"
  roiCloud :: "real option"
  cloudFrac :: "real option"
  validFrac :: "real option"
  sortKey :: "real option"
  absDiffDays :: "real option"
  usedExactOnDay :: "bool option"

text \<open>\<^verbatim>\<open>ee.Image().updateMask(ee.Image(0))\<close> (line 137): no band, no property.\<close>

definition empty :: image where
  "empty = \<lparr> time_start = None, CLOUDY_PIXEL_PERCENTAGE = None, cloudprob = None,
             B2 = None, probability = None, roiCloud = None, cloudFrac = None,
             validFrac = None, sortKey = None, absDiffDays = None,
             usedExactOnDay = None \<rparr>"

section \<open>Collections\<close>

text \<open>
  A collection is the list of its images. A property filter keeps the images that have
  the property and satisfy the comparison; \<^verbatim>\<open>filterDate(start, end)\<close> keeps
  \<open>start \<le> time_start < end\<close>; \<^verbatim>\<open>first()\<close> of an empty collection is null (\<open>None\<close>);
  \<^verbatim>\<open>aggregate_min\<close> of a collection where no image has the property is null.
\<close>

definition prop_gte :: "real option \<Rightarrow> real \<Rightarrow> bool" where
  "prop_gte p c = (case p of None \<Rightarrow> False | Some v \<Rightarrow> v \<ge> c)"

definition prop_lte :: "real option \<Rightarrow> real \<Rightarrow> bool" where
  "prop_lte p c = (case p of None \<Rightarrow> False | Some v \<Rightarrow> v \<le> c)"

definition in_window :: "date \<Rightarrow> date \<Rightarrow> image \<Rightarrow> bool" where
  "in_window dateStart dateEnd img =
     (case time_start img of None \<Rightarrow> False | Some t \<Rightarrow> dateStart \<le> t \<and> t < dateEnd)"

definition filterDate :: "date \<Rightarrow> date \<Rightarrow> image list \<Rightarrow> image list" where
  "filterDate dateStart dateEnd col = filter (in_window dateStart dateEnd) col"

fun first :: "image list \<Rightarrow> image option" where
  "first [] = None"
| "first (x # xs) = Some x"

fun prop_values :: "(image \<Rightarrow> real option) \<Rightarrow> image list \<Rightarrow> real list" where
  "prop_values p [] = []"
| "prop_values p (x # xs) = (case p x of None \<Rightarrow> prop_values p xs | Some v \<Rightarrow> v # prop_values p xs)"

definition aggregate_min :: "(image \<Rightarrow> real option) \<Rightarrow> image list \<Rightarrow> real option" where
  "aggregate_min p col = (case prop_values p col of [] \<Rightarrow> None | v # vs \<Rightarrow> Some (fold min vs v))"

text \<open>\<^verbatim>\<open>sort(property, ascending)\<close>; an absent property sorts before every value.\<close>

definition sort_by :: "(image \<Rightarrow> ('k :: linorder)) \<Rightarrow> bool \<Rightarrow> image list \<Rightarrow> image list" where
  "sort_by p ascending col = (if ascending then sort_key p col else rev (sort_key p col))"

section \<open>Scoring (lines 63-111)\<close>

text \<open>
  \<^verbatim>\<open>ee.Algorithms.If(c, a, b)\<close> reads a condition that is not a boolean as follows:
  null is false, a number equal to 0 is false, every other value is true. \<open>or_default\<close>
  is \<^verbatim>\<open>ee.Number(ee.Algorithms.If(x, x, dflt))\<close>.
\<close>

definition or_default :: "real option \<Rightarrow> real \<Rightarrow> real" where
  "or_default x dflt = (case x of None \<Rightarrow> dflt | Some v \<Rightarrow> if v = 0 then dflt else v)"

definition addCloudProb :: "image \<Rightarrow> image" where
  "addCloudProb img =
     (let cp = (case cloudprob img of Some r \<Rightarrow> r | None \<Rightarrow> Constant 100)
      in img\<lparr>probability := Some cp\<rparr>)"

text \<open>
  The reduction of a band: \<^verbatim>\<open>reduceRegion(...).get(band)\<close>. The script maps
  \<open>addMetrics\<close> over the results of \<open>addCloudProb\<close> only, which carry the band
  \<^verbatim>\<open>probability\<close>; a band that is not there yields no value.
\<close>

definition reduce_band :: "(raster \<Rightarrow> raster) \<Rightarrow> raster option \<Rightarrow> real option" where
  "reduce_band f band = (case band of None \<Rightarrow> None | Some r \<Rightarrow> reduce_mean (f r))"

definition addMetrics :: "image \<Rightarrow> image" where
  "addMetrics img =
     (let prob = probability img;
          roiCloud0 = or_default (reduce_band (\<lambda>r. r) prob) 100;
          cloudFrac0 = or_default (reduce_band (raster_gt cloudProbThresh) prob) 1;
          validFrac0 = or_default (reduce_band raster_mask (B2 img)) 0
      in img\<lparr>roiCloud := Some roiCloud0, cloudFrac := Some cloudFrac0,
              validFrac := Some validFrac0\<rparr>)"

section \<open>Quality tiers (lines 113-135)\<close>

definition qualityFilter :: "image list \<Rightarrow> image list" where
  "qualityFilter col =
     filter (\<lambda>i. prop_lte (cloudFrac i) maxCloudFrac)
       (filter (\<lambda>i. prop_gte (validFrac i) minValidFrac) col)"

definition validOnly :: "image list \<Rightarrow> image list" where
  "validOnly col = filter (\<lambda>i. prop_gte (validFrac i) minValidFrac) col"

text \<open>
  The tier used for selection, written three times in the script (lines 129-135,
  154-160 and 171-177): the strict tier if it has an image, else the valid-only tier if
  it has one, else the whole pool.
\<close>

definition tier :: "image list \<Rightarrow> image list" where
  "tier colAll =
     (let colStrict = qualityFilter colAll;
          colValid = validOnly colAll
      in if length colStrict > 0 then colStrict
         else if length colValid > 0 then colValid else colAll)"

section \<open>Before and after: \<^verbatim>\<open>selectMinCloudWithTimePref\<close> (lines 121-147)\<close>

definition scored_window :: "image list \<Rightarrow> date \<Rightarrow> date \<Rightarrow> image list" where
  "scored_window joined dateStart dateEnd =
     map addMetrics (map addCloudProb (filterDate dateStart dateEnd joined))"

text \<open>
  The near-tie set \<^verbatim>\<open>best\<close> of a tier (lines 139-140). The minimum of an empty
  tier is null and nothing can be compared with it; the script reads \<^verbatim>\<open>best\<close> only
  through the guard of line 146.
\<close>

definition near_tie :: "image list \<Rightarrow> image list" where
  "near_tie col =
     (case aggregate_min roiCloud col of
        None \<Rightarrow> []
      | Some minCloud \<Rightarrow> filter (\<lambda>i. prop_lte (roiCloud i) (minCloud + cloudTieTolerance)) col)"

text \<open>
  The result is an image, or \<open>None\<close> where the script's expression is null (the first
  image of an empty collection). \<^verbatim>\<open>ee.Algorithms.If\<close> on a boolean condition is read
  as a conditional that delivers the selected branch only.
\<close>

definition selectMinCloudWithTimePref ::
    "image list \<Rightarrow> date \<Rightarrow> date \<Rightarrow> bool \<Rightarrow> image option" where
  "selectMinCloudWithTimePref joined dateStart dateEnd preferLatest =
     (let colAll = scored_window joined dateStart dateEnd;
          col = tier colAll;
          best = near_tie col;
          sorted = sort_by time_start (\<not> preferLatest) best;
          chosen = first sorted
      in if length colAll > 0 then chosen else Some empty)"

section \<open>On the day: \<^verbatim>\<open>selectOnDayExactOrNearest\<close> (lines 150-185)\<close>

text \<open>
  The function mapped over the nearest pool (lines 165-169): the distance is the absolute
  value of \<^verbatim>\<open>difference(tDate, 'day')\<close>, a fraction of days, not a count of calendar
  days. The final \<^verbatim>\<open>set('usedExactOnDay', ...)\<close> on a null image gives no image.
\<close>

definition addSortKey :: "date \<Rightarrow> image \<Rightarrow> image" where
  "addSortKey tDate img =
     (let d = map_option (\<lambda>t. \<bar>difference t tDate\<bar>) (time_start img);
          key = (case (d, roiCloud img) of
                   (Some dd, Some c) \<Rightarrow> Some (dd * 1000 + c)
                 | _ \<Rightarrow> None)
      in img\<lparr>sortKey := key, absDiffDays := d\<rparr>)"

definition nearest_pool :: "image list \<Rightarrow> date \<Rightarrow> int \<Rightarrow> image list" where
  "nearest_pool joined tDate nearestDays =
     map (addSortKey tDate)
       (scored_window joined (advance tDate (- nearestDays)) (advance tDate (nearestDays + 1)))"

definition exact_pool :: "image list \<Rightarrow> date \<Rightarrow> image list" where
  "exact_pool joined tDate = scored_window joined tDate (advance tDate 1)"

definition selectOnDayExactOrNearest :: "image list \<Rightarrow> date \<Rightarrow> int \<Rightarrow> image option" where
  "selectOnDayExactOrNearest joined tDate nearestDays =
     (let exactAll = exact_pool joined tDate;
          exact = tier exactAll;
          nearestAll = nearest_pool joined tDate nearestDays;
          nearest = tier nearestAll;
          exactSize = length exactAll;
          exactChosen = first (sort_by roiCloud True exact);
          nearestChosen = first (sort_by sortKey True nearest)
      in map_option (\<lambda>img. img\<lparr>usedExactOnDay := Some (exactSize > 0)\<rparr>)
           (if exactSize > 0 then exactChosen else nearestChosen))"

section \<open>Windows and picks (lines 188-197)\<close>

definition preStart :: date where
  "preStart = advance targetDate (- preLookbackDays)"

definition preEnd :: date where
  "preEnd = targetDate"

definition postStart :: date where
  "postStart = advance targetDate 1"

definition postEnd :: date where
  "postEnd = advance targetDate (postForwardDays + 1)"

definition beforeImg :: "image list \<Rightarrow> image option" where
  "beforeImg joined = selectMinCloudWithTimePref joined preStart preEnd True"

definition onImg :: "image list \<Rightarrow> image option" where
  "onImg joined = selectOnDayExactOrNearest joined targetDate onFallbackNearestDays"

definition afterImg :: "image list \<Rightarrow> image option" where
  "afterImg joined = selectMinCloudWithTimePref joined postStart postEnd False"

section \<open>Example catalogue\<close>

text \<open>
  Five granules around the target date, each with two sampled pixels: two in the
  before-window, one on the day, two of the same pass fourteen seconds apart two days
  later.
\<close>

definition s2_granule :: "date \<Rightarrow> raster option \<Rightarrow> image" where
  "s2_granule t cp =
     empty\<lparr>time_start := Some t, cloudprob := cp, B2 := Some (Pixels [Some 800, Some 900])\<rparr>"

definition granule_a :: image where
  "granule_a = s2_granule (advance targetDate (- 5) + 18000000) (Some (Pixels [Some 10, Some 20]))"

definition granule_b :: image where
  "granule_b = s2_granule (advance targetDate (- 2) + 18000000) (Some (Pixels [Some 12, Some 22]))"

definition granule_c :: image where
  "granule_c = s2_granule (targetDate + 18000000) (Some (Pixels [Some 30, Some 50]))"

definition granule_d :: image where
  "granule_d = s2_granule (advance targetDate 2 + 18000000) (Some (Pixels [Some 60, Some 60]))"

definition granule_e :: image where
  "granule_e = s2_granule (advance targetDate 2 + 18014000) (Some (Pixels [Some 5, Some 5]))"

definition catalogue :: "image list" where
  "catalogue = [granule_a, granule_b, granule_c, granule_d, granule_e]"

text \<open>A scored cloudy granule, and an image without the \<^verbatim>\<open>cloudprob\<close> property.\<close>

definition granule_cloudy :: image where
  "granule_cloudy = s2_granule (advance targetDate (- 4) + 18000000) (Some (Pixels [Some 98, Some 98]))"

definition granule_unscored :: image where
  "granule_unscored = s2_granule (advance targetDate (- 3) + 18000000) None"

text \<open>A granule with no pixel in the export region.\<close>

definition granule_outside :: image where
  "granule_outside =
     empty\<lparr>time_start := Some (advance targetDate (- 6) + 18000000),
           cloudprob := Some (Pixels []), B2 := Some (Pixels [])\<rparr>"

text \<open>
  A granule of the after-window whose cloud mean is within the tolerance of
  \<open>granule_e\<close>, two days later.
\<close>

definition granule_g :: image where
  "granule_g = s2_granule (advance targetDate 4 + 18000000) (Some (Pixels [Some 6, Some 8]))"

text \<open>
  Two granules two calendar days from the target, one before (28 November, 05:00 UTC,
  cloudy) and one after (2 December, 05:00 UTC, clear).
\<close>

definition granule_nov28 :: image where
  "granule_nov28 = s2_granule (advance targetDate (- 2) + 18000000) (Some (Pixels [Some 60, Some 60]))"

definition granule_dec2 :: image where
  "granule_dec2 = s2_granule (advance targetDate 2 + 18000000) (Some (Pixels [Some 5, Some 5]))"

text \<open>
  Granules whose cloud-probability raster is masked over the whole export region, so that
  its reductions yield no value: one in the before-window, one on the target day, one a
  day after the target; and a scored granule two days after the target.
\<close>

definition granule_masked :: image where
  "granule_masked = s2_granule (advance targetDate (- 3) + 18000000) (Some (Pixels [None, None]))"

definition granule_on_masked :: image where
  "granule_on_masked = s2_granule (targetDate + 18000000) (Some (Pixels [None, None]))"

definition granule_near_masked :: image where
  "granule_near_masked = s2_granule (advance targetDate 1 + 18000000) (Some (Pixels [None, None]))"

definition granule_near_scored :: image where
  "granule_near_scored = s2_granule (advance targetDate 2 + 18000000) (Some (Pixels [Some 10, Some 10]))"

section \<open>Auxiliary facts\<close>

subsection \<open>First element of a sorted collection\<close>

lemma first_None_iff: "first xs = None \<longleftrightarrow> xs = []"
  by (cases xs) auto

lemma first_mem: "first xs = Some c \<Longrightarrow> c \<in> set xs"
  by (cases xs) auto

lemma first_sort_key_min:
  assumes "first (sort_key f xs) = Some c"
  shows "c \<in> set xs \<and> (\<forall>x\<in>set xs. f c \<le> f x)"
proof -
  from assms obtain ys where ys: "sort_key f xs = c # ys"
    by (cases "sort_key f xs") auto
  have "set (sort_key f xs) = set xs" by simp
  with ys have mem: "c \<in> set xs" and sub: "set ys \<subseteq> set xs" by auto
  have "sorted (map f (sort_key f xs))" by (rule sorted_sort_key)
  with ys have "\<forall>y\<in>set ys. f c \<le> f y" by simp
  moreover have "set xs = insert c (set ys)" using ys \<open>set (sort_key f xs) = set xs\<close> by auto
  ultimately show ?thesis using mem by auto
qed

lemma first_rev_sort_key_max:
  assumes "first (rev (sort_key f xs)) = Some c"
  shows "c \<in> set xs \<and> (\<forall>x\<in>set xs. f x \<le> f c)"
proof -
  from assms obtain ys where ys: "rev (sort_key f xs) = c # ys"
    by (cases "rev (sort_key f xs)") auto
  then have eq: "sort_key f xs = rev ys @ [c]"
    by (metis rev.simps(2) rev_rev_ident)
  have "set (sort_key f xs) = set xs" by simp
  with eq have sx: "set xs = insert c (set ys)" by auto
  have "sorted (map f (sort_key f xs))" by (rule sorted_sort_key)
  with eq have "\<forall>y\<in>set ys. f y \<le> f c" by (simp add: sorted_append)
  with sx show ?thesis by auto
qed

lemma first_sort_by:
  assumes "first (sort_by f asc xs) = Some c"
  shows "c \<in> set xs \<and> (\<forall>x\<in>set xs. if asc then f c \<le> f x else f x \<le> f c)"
  using assms first_sort_key_min[of f xs c] first_rev_sort_key_max[of f xs c]
  by (auto simp: sort_by_def split: if_splits)

lemma first_sort_by_None: "first (sort_by f asc xs) = None \<longleftrightarrow> xs = []"
proof -
  have "sort_key f xs = [] \<longleftrightarrow> xs = []"
    by (metis length_0_conv length_sort)
  then show ?thesis by (simp add: first_None_iff sort_by_def)
qed

subsection \<open>Aggregation\<close>

lemma fold_min_le: "fold min vs (v::real) \<le> v \<and> (\<forall>x\<in>set vs. fold min vs v \<le> x)"
proof (induction vs arbitrary: v)
  case Nil show ?case by simp
next
  case (Cons a vs)
  have a1: "fold min vs (min a v) \<le> min a v" using Cons.IH by blast
  have a2: "\<forall>x\<in>set vs. fold min vs (min a v) \<le> x" using Cons.IH by blast
  show ?case using a1 a2 by auto
qed

lemma fold_min_mem: "fold min vs (v::real) \<in> insert v (set vs)"
  by (induction vs arbitrary: v) (auto simp: min_def)

lemma prop_values_set: "set (prop_values p col) = {v. \<exists>i\<in>set col. p i = Some v}"
  by (induction col) (auto split: option.splits)

lemma aggregate_min_Some:
  assumes "aggregate_min p col = Some m"
  shows "(\<exists>x\<in>set col. p x = Some m) \<and> (\<forall>x\<in>set col. \<forall>v. p x = Some v \<longrightarrow> m \<le> v)"
proof -
  from assms obtain v vs where vs: "prop_values p col = v # vs" and m: "m = fold min vs v"
    by (auto simp: aggregate_min_def split: list.splits)
  have "m \<in> set (prop_values p col)" using fold_min_mem[of vs v] vs m by simp
  then have ex: "\<exists>x\<in>set col. p x = Some m" by (simp add: prop_values_set)
  have "\<forall>w\<in>set (prop_values p col). m \<le> w" using fold_min_le[of vs v] vs m by simp
  then have "\<forall>x\<in>set col. \<forall>w. p x = Some w \<longrightarrow> m \<le> w"
    by (auto simp: prop_values_set)
  with ex show ?thesis by blast
qed

lemma aggregate_min_None:
  "aggregate_min p col = None \<longleftrightarrow> (\<forall>x\<in>set col. p x = None)"
proof -
  have "aggregate_min p col = None \<longleftrightarrow> set (prop_values p col) = {}"
    by (simp add: aggregate_min_def split: list.splits)
  also have "\<dots> \<longleftrightarrow> (\<forall>x\<in>set col. p x = None)"
    unfolding prop_values_set by (auto, metis option.exhaust)
  finally show ?thesis .
qed

subsection \<open>Scored windows and tiers\<close>

lemma addMetrics_sets:
  "\<exists>r c v. roiCloud (addMetrics i) = Some r \<and> cloudFrac (addMetrics i) = Some c
     \<and> validFrac (addMetrics i) = Some v"
  by (simp add: addMetrics_def Let_def)

lemma time_start_scored: "time_start (addMetrics (addCloudProb i)) = time_start i"
  by (simp add: addMetrics_def addCloudProb_def Let_def)

lemma scored_window_mem:
  assumes "c \<in> set (scored_window joined s e)"
  shows "\<exists>i\<in>set joined. in_window s e i \<and> c = addMetrics (addCloudProb i)"
  using assms by (auto simp: scored_window_def filterDate_def)

lemma scored_window_roiCloud:
  assumes "c \<in> set (scored_window joined s e)"
  shows "\<exists>r. roiCloud c = Some r"
  using scored_window_mem[OF assms] addMetrics_sets by metis

lemma scored_window_time:
  assumes "c \<in> set (scored_window joined s e)"
  shows "\<exists>t. time_start c = Some t \<and> s \<le> t \<and> t < e"
proof -
  from scored_window_mem[OF assms] obtain i where i: "in_window s e i" "c = addMetrics (addCloudProb i)"
    by blast
  then show ?thesis
    by (auto simp: in_window_def time_start_scored split: option.splits)
qed

lemma scored_window_empty_iff:
  "scored_window joined s e = [] \<longleftrightarrow> \<not> (\<exists>i\<in>set joined. in_window s e i)"
  by (auto simp: scored_window_def filterDate_def filter_empty_conv)

lemma set_qualityFilter_subset: "set (qualityFilter col) \<subseteq> set (validOnly col)"
  by (auto simp: qualityFilter_def validOnly_def)

lemma set_validOnly_subset: "set (validOnly col) \<subseteq> set col"
  by (auto simp: validOnly_def)

lemma tier_cases:
  "tier col = (if qualityFilter col \<noteq> [] then qualityFilter col
               else if validOnly col \<noteq> [] then validOnly col else col)"
  by (simp add: tier_def Let_def)

lemma set_tier_subset: "set (tier col) \<subseteq> set col"
  using set_qualityFilter_subset[of col] set_validOnly_subset[of col]
  by (auto simp: tier_cases)

lemma tier_empty_iff: "tier col = [] \<longleftrightarrow> col = []"
  by (auto simp: tier_cases qualityFilter_def validOnly_def)

lemma tier_scored_roiCloud:
  "\<forall>x\<in>set (tier (scored_window joined s e)). \<exists>r. roiCloud x = Some r"
  using set_tier_subset[of "scored_window joined s e"] scored_window_roiCloud by blast

subsection \<open>Near-tie set and the two selections\<close>

lemma near_tie_subset: "set (near_tie col) \<subseteq> set col"
  by (auto simp: near_tie_def split: option.splits)

lemma near_tie_nonempty:
  assumes "col \<noteq> []" and "\<forall>x\<in>set col. \<exists>r. roiCloud x = Some r"
  shows "\<exists>m x. aggregate_min roiCloud col = Some m \<and> x \<in> set (near_tie col) \<and> roiCloud x = Some m"
proof -
  from assms obtain y where "y \<in> set col" "roiCloud y \<noteq> None" by (cases col) auto
  then have "aggregate_min roiCloud col \<noteq> None" by (auto simp: aggregate_min_None)
  then obtain m where m: "aggregate_min roiCloud col = Some m" by auto
  from aggregate_min_Some[OF m] obtain x where x: "x \<in> set col" "roiCloud x = Some m" by blast
  then have "x \<in> set (near_tie col)"
    by (simp add: near_tie_def m prop_lte_def cloudTieTolerance_def)
  with m x show ?thesis by blast
qed

lemma near_tie_bound:
  assumes "x \<in> set (near_tie col)"
  shows "\<exists>m r. aggregate_min roiCloud col = Some m \<and> roiCloud x = Some r \<and> r \<le> m + cloudTieTolerance"
proof (cases "aggregate_min roiCloud col")
  case None
  with assms show ?thesis by (simp add: near_tie_def)
next
  case (Some m)
  with assms have "prop_lte (roiCloud x) (m + cloudTieTolerance)"
    by (simp add: near_tie_def)
  with Some show ?thesis by (cases "roiCloud x") (simp_all add: prop_lte_def)
qed

lemma selectMin_unfold:
  "selectMinCloudWithTimePref joined s e pl =
     (if scored_window joined s e \<noteq> []
      then first (sort_by time_start (\<not> pl) (near_tie (tier (scored_window joined s e))))
      else Some empty)"
  by (simp add: selectMinCloudWithTimePref_def Let_def)

lemma selectMin_chosen:
  assumes "scored_window joined s e \<noteq> []"
  shows "\<exists>c. selectMinCloudWithTimePref joined s e pl = Some c
           \<and> c \<in> set (near_tie (tier (scored_window joined s e)))
           \<and> (\<forall>x\<in>set (near_tie (tier (scored_window joined s e))).
                 if pl then time_start x \<le> time_start c else time_start c \<le> time_start x)"
proof -
  let ?T = "tier (scored_window joined s e)"
  have "?T \<noteq> []" using assms by (simp add: tier_empty_iff)
  then have "near_tie ?T \<noteq> []"
    using near_tie_nonempty[OF _ tier_scored_roiCloud, of joined s e] by auto
  then have "first (sort_by time_start (\<not> pl) (near_tie ?T)) \<noteq> None"
    by (simp add: first_sort_by_None)
  then obtain c where c: "first (sort_by time_start (\<not> pl) (near_tie ?T)) = Some c" by auto
  from first_sort_by[OF c] have "c \<in> set (near_tie ?T)"
    and "\<forall>x\<in>set (near_tie ?T). if pl then time_start x \<le> time_start c else time_start c \<le> time_start x"
    by auto
  with c assms show ?thesis by (simp add: selectMin_unfold)
qed

lemma selectOnDay_unfold:
  "selectOnDayExactOrNearest joined tDate n =
     map_option (\<lambda>img. img\<lparr>usedExactOnDay := Some (exact_pool joined tDate \<noteq> [])\<rparr>)
       (if exact_pool joined tDate \<noteq> []
        then first (sort_by roiCloud True (tier (exact_pool joined tDate)))
        else first (sort_by sortKey True (tier (nearest_pool joined tDate n))))"
  by (simp add: selectOnDayExactOrNearest_def Let_def)

lemma selectOnDay_exact_chosen:
  assumes "exact_pool joined tDate \<noteq> []"
  shows "\<exists>c r. selectOnDayExactOrNearest joined tDate nearestDays
                = Some (c\<lparr>usedExactOnDay := Some True\<rparr>)
            \<and> c \<in> set (tier (exact_pool joined tDate)) \<and> roiCloud c = Some r
            \<and> (\<forall>x\<in>set (tier (exact_pool joined tDate)). \<exists>v. roiCloud x = Some v \<and> r \<le> v)"
proof -
  let ?E = "exact_pool joined tDate"
  from assms have "tier ?E \<noteq> []" by (simp add: tier_empty_iff)
  then have "first (sort_by roiCloud True (tier ?E)) \<noteq> None"
    by (simp add: first_sort_by_None)
  then obtain c where c: "first (sort_by roiCloud True (tier ?E)) = Some c" by auto
  from first_sort_by[OF c] have mem: "c \<in> set (tier ?E)"
    and le: "\<forall>x\<in>set (tier ?E). roiCloud c \<le> roiCloud x" by auto
  have def: "\<forall>x\<in>set (tier ?E). \<exists>v. roiCloud x = Some v"
    unfolding exact_pool_def by (rule tier_scored_roiCloud)
  with mem obtain r where r: "roiCloud c = Some r" by blast
  have "\<forall>x\<in>set (tier ?E). \<exists>v. roiCloud x = Some v \<and> r \<le> v"
  proof
    fix x assume x: "x \<in> set (tier ?E)"
    with def obtain v where v: "roiCloud x = Some v" by blast
    from le x have "roiCloud c \<le> roiCloud x" by blast
    with r v show "\<exists>v. roiCloud x = Some v \<and> r \<le> v" by simp
  qed
  moreover have "selectOnDayExactOrNearest joined tDate nearestDays
                = Some (c\<lparr>usedExactOnDay := Some True\<rparr>)"
    using assms c by (simp add: selectOnDay_unfold)
  ultimately show ?thesis using mem r by blast
qed

lemma nearest_pool_mem:
  assumes "x \<in> set (nearest_pool joined tDate n)"
  shows "\<exists>t c. time_start x = Some t \<and> roiCloud x = Some c
           \<and> absDiffDays x = Some \<bar>difference t tDate\<bar>
           \<and> sortKey x = Some (\<bar>difference t tDate\<bar> * 1000 + c)"
proof -
  from assms obtain s where s: "s \<in> set (scored_window joined (advance tDate (- n)) (advance tDate (n + 1)))"
    and x: "x = addSortKey tDate s"
    by (auto simp: nearest_pool_def)
  from scored_window_time[OF s] obtain t where t: "time_start s = Some t" by blast
  from scored_window_roiCloud[OF s] obtain c where c: "roiCloud s = Some c" by blast
  show ?thesis using x t c by (simp add: addSortKey_def Let_def)
qed

lemma selectMin_roiCloud_100:
  assumes sel: "selectMinCloudWithTimePref joined s e pl = Some c"
      and c100: "roiCloud c = Some 100"
      and x: "x \<in> set (tier (scored_window joined s e))"
      and v: "roiCloud x = Some v"
  shows "100 - cloudTieTolerance \<le> v"
proof -
  let ?T = "tier (scored_window joined s e)"
  from x have "?T \<noteq> []" by auto
  then have ne: "scored_window joined s e \<noteq> []" by (simp add: tier_empty_iff)
  from selectMin_chosen[OF ne, of pl] sel have "c \<in> set (near_tie ?T)" by auto
  from near_tie_bound[OF this] c100 obtain m
    where m: "aggregate_min roiCloud ?T = Some m" and le: "100 \<le> m + cloudTieTolerance"
    by auto
  from aggregate_min_Some[OF m] x v have "m \<le> v" by blast
  with le show ?thesis by simp
qed

lemma selectMin_time_pref:
  assumes "scored_window joined dateStart dateEnd \<noteq> []"
  shows "\<exists>c t. selectMinCloudWithTimePref joined dateStart dateEnd preferLatest = Some c
           \<and> c \<in> set (near_tie (tier (scored_window joined dateStart dateEnd)))
           \<and> time_start c = Some t
           \<and> (\<forall>x\<in>set (near_tie (tier (scored_window joined dateStart dateEnd))).
                 \<exists>u. time_start x = Some u \<and> (if preferLatest then u \<le> t else t \<le> u))"
proof -
  let ?W = "scored_window joined dateStart dateEnd"
  let ?B = "near_tie (tier ?W)"
  from selectMin_chosen[OF assms, of preferLatest] obtain c
    where c: "selectMinCloudWithTimePref joined dateStart dateEnd preferLatest = Some c"
      and mem: "c \<in> set ?B"
      and ord: "\<forall>x\<in>set ?B. if preferLatest then time_start x \<le> time_start c
                              else time_start c \<le> time_start x" by blast
  have sub: "set ?B \<subseteq> set ?W"
    using near_tie_subset[of "tier ?W"] set_tier_subset[of ?W] by blast
  have times: "\<forall>x\<in>set ?B. \<exists>u. time_start x = Some u"
    using sub scored_window_time by blast
  from times mem obtain t where t: "time_start c = Some t" by blast
  have "\<forall>x\<in>set ?B. \<exists>u. time_start x = Some u \<and> (if preferLatest then u \<le> t else t \<le> u)"
  proof
    fix x assume x: "x \<in> set ?B"
    with times obtain u where u: "time_start x = Some u" by blast
    from ord x have "if preferLatest then time_start x \<le> time_start c
                     else time_start c \<le> time_start x" by blast
    with u t show "\<exists>u. time_start x = Some u \<and> (if preferLatest then u \<le> t else t \<le> u)"
      by (simp split: if_splits)
  qed
  with c mem t show ?thesis by blast
qed

lemma selectOnDay_nearest_chosen:
  assumes "exact_pool joined tDate = []"
      and "selectOnDayExactOrNearest joined tDate nearestDays = Some c"
  shows "\<exists>c0. c = c0\<lparr>usedExactOnDay := Some False\<rparr>
           \<and> c0 \<in> set (tier (nearest_pool joined tDate nearestDays))
           \<and> (\<forall>z\<in>set (tier (nearest_pool joined tDate nearestDays)). sortKey c0 \<le> sortKey z)"
proof -
  let ?N = "tier (nearest_pool joined tDate nearestDays)"
  from assms obtain c0 where c0: "first (sort_by sortKey True ?N) = Some c0"
    and c: "c = c0\<lparr>usedExactOnDay := Some False\<rparr>"
    by (auto simp: selectOnDay_unfold)
  from first_sort_by[OF c0] c show ?thesis by auto
qed

lemma nearest_roiCloud_100:
  assumes e: "exact_pool joined tDate = []"
      and sel: "selectOnDayExactOrNearest joined tDate nearestDays = Some c"
      and c100: "roiCloud c = Some 100"
      and dc: "absDiffDays c = Some dc"
      and x: "x \<in> set (tier (nearest_pool joined tDate nearestDays))"
      and dx: "absDiffDays x = Some dx"
      and v: "roiCloud x = Some v"
      and le: "dx \<le> dc"
  shows "100 \<le> v"
proof -
  let ?P = "nearest_pool joined tDate nearestDays"
  from selectOnDay_nearest_chosen[OF e sel] obtain c0
    where c: "c = c0\<lparr>usedExactOnDay := Some False\<rparr>"
      and m: "c0 \<in> set (tier ?P)"
      and mn: "\<forall>z\<in>set (tier ?P). sortKey c0 \<le> sortKey z" by blast
  from m set_tier_subset[of ?P] have "c0 \<in> set ?P" by auto
  from nearest_pool_mem[OF this] c c100 dc
  have k0: "sortKey c0 = Some (dc * 1000 + 100)" by auto
  from x set_tier_subset[of ?P] have "x \<in> set ?P" by auto
  from nearest_pool_mem[OF this] dx v
  have kx: "sortKey x = Some (dx * 1000 + v)" by auto
  from mn x have "sortKey c0 \<le> sortKey x" by blast
  with k0 kx have "dc * 1000 + 100 \<le> dx * 1000 + v" by simp
  with le show ?thesis by simp
qed

subsection \<open>Scoring defaults\<close>

lemma unscored_metrics:
  assumes "cloudprob u = None"
  shows "probability (addCloudProb u) = Some (Constant 100)
       \<and> roiCloud (addMetrics (addCloudProb u)) = Some 100
       \<and> cloudFrac (addMetrics (addCloudProb u)) = Some 1"
  using assms
  by (simp add: addCloudProb_def addMetrics_def reduce_band_def or_default_def
      cloudProbThresh_def Let_def)

lemma not_strict_of_cloudFrac_1:
  assumes "cloudFrac x = Some 1"
  shows "x \<notin> set (qualityFilter col)"
  using assms by (simp add: qualityFilter_def prop_lte_def maxCloudFrac_def)

subsection \<open>Evaluation of the example catalogue\<close>

lemmas sample_defs = catalogue_def granule_a_def granule_b_def granule_c_def granule_d_def
  granule_e_def granule_g_def granule_cloudy_def granule_unscored_def granule_outside_def
  granule_nov28_def granule_dec2_def granule_masked_def granule_on_masked_def
  granule_near_masked_def granule_near_scored_def s2_granule_def empty_def

lemmas date_defs = targetDate_def ee_Date_def days_from_civil_def advance_def msPerDay_def
  preStart_def preEnd_def postStart_def postEnd_def preLookbackDays_def postForwardDays_def
  onFallbackNearestDays_def difference_def

lemmas score_defs = scored_window_def filterDate_def in_window_def addMetrics_def
  addCloudProb_def reduce_band_def or_default_def cloudProbThresh_def

lemmas sel_defs = tier_def qualityFilter_def validOnly_def prop_gte_def prop_lte_def
  minValidFrac_def maxCloudFrac_def near_tie_def aggregate_min_def cloudTieTolerance_def
  sort_by_def selectMinCloudWithTimePref_def

lemmas key_defs = nearest_pool_def exact_pool_def addSortKey_def
  selectOnDayExactOrNearest_def onImg_def

lemma catalogue_before_nonempty: "scored_window catalogue preStart preEnd \<noteq> []"
  by (simp add: scored_window_def filterDate_def in_window_def sample_defs date_defs)

lemma catalogue_after_nonempty: "scored_window catalogue postStart postEnd \<noteq> []"
  by (simp add: scored_window_def filterDate_def in_window_def sample_defs date_defs)

section \<open>Properties of the selection\<close>

text \<open>
  C1. On the target day the exact-day pool has precedence: if a candidate of the catalogue
  has its acquisition time on the target day \<open>[tDate, tDate + 1 day)\<close>, the selection
  is a candidate of the exact pool's tier with the least \<open>roiCloud\<close> there, flagged
  \<open>usedExactOnDay\<close>, and it is the same for every catalogue with the same exact pool and
  for every fallback width; the nearest pool decides only when no candidate is on the day.
\<close>

theorem on_day_exact_precedence:
  "((\<exists>i\<in>set joined. in_window tDate (advance tDate 1) i) \<longrightarrow>
      (\<exists>c r. selectOnDayExactOrNearest joined tDate nearestDays
                = Some (c\<lparr>usedExactOnDay := Some True\<rparr>)
            \<and> c \<in> set (tier (exact_pool joined tDate))
            \<and> roiCloud c = Some r
            \<and> (\<forall>x\<in>set (tier (exact_pool joined tDate)). \<exists>v. roiCloud x = Some v \<and> r \<le> v))
      \<and> (\<forall>joined' nearestDays'.
            exact_pool joined' tDate = exact_pool joined tDate \<longrightarrow>
            selectOnDayExactOrNearest joined' tDate nearestDays'
              = selectOnDayExactOrNearest joined tDate nearestDays))
   \<and> (\<not> (\<exists>i\<in>set joined. in_window tDate (advance tDate 1) i) \<longrightarrow>
        selectOnDayExactOrNearest joined tDate nearestDays
          = map_option (\<lambda>img. img\<lparr>usedExactOnDay := Some False\<rparr>)
              (first (sort_by sortKey True (tier (nearest_pool joined tDate nearestDays)))))"
proof -
  let ?E = "exact_pool joined tDate"
  have iff: "(\<exists>i\<in>set joined. in_window tDate (advance tDate 1) i) \<longleftrightarrow> ?E \<noteq> []"
    by (simp add: exact_pool_def scored_window_empty_iff)
  have pos: "?E \<noteq> [] \<longrightarrow>
      (\<exists>c r. selectOnDayExactOrNearest joined tDate nearestDays
                = Some (c\<lparr>usedExactOnDay := Some True\<rparr>)
            \<and> c \<in> set (tier ?E) \<and> roiCloud c = Some r
            \<and> (\<forall>x\<in>set (tier ?E). \<exists>v. roiCloud x = Some v \<and> r \<le> v))"
    using selectOnDay_exact_chosen[of joined tDate nearestDays] by blast
  have indep: "?E \<noteq> [] \<longrightarrow> (\<forall>joined' nearestDays'.
            exact_pool joined' tDate = ?E \<longrightarrow>
            selectOnDayExactOrNearest joined' tDate nearestDays'
              = selectOnDayExactOrNearest joined tDate nearestDays)"
    by (simp add: selectOnDay_unfold)
  have neg: "?E = [] \<longrightarrow> selectOnDayExactOrNearest joined tDate nearestDays
          = map_option (\<lambda>img. img\<lparr>usedExactOnDay := Some False\<rparr>)
              (first (sort_by sortKey True (tier (nearest_pool joined tDate nearestDays))))"
    by (simp add: selectOnDay_unfold)
  from pos indep neg show ?thesis unfolding iff by blast
qed

theorem on_day_exact_precedence_witness:
  "(\<exists>i\<in>set catalogue. in_window targetDate (advance targetDate 1) i)
   \<and> (\<exists>c. selectOnDayExactOrNearest catalogue targetDate onFallbackNearestDays
             = Some (c\<lparr>usedExactOnDay := Some True\<rparr>)
         \<and> c \<in> set (tier (exact_pool catalogue targetDate)))
   \<and> \<not> (\<exists>i\<in>set [granule_d, granule_e]. in_window targetDate (advance targetDate 1) i)
   \<and> selectOnDayExactOrNearest [granule_d, granule_e] targetDate onFallbackNearestDays
       = map_option (\<lambda>img. img\<lparr>usedExactOnDay := Some False\<rparr>)
           (first (sort_by sortKey True
              (tier (nearest_pool [granule_d, granule_e] targetDate onFallbackNearestDays))))"
proof -
  have h1: "\<exists>i\<in>set catalogue. in_window targetDate (advance targetDate 1) i"
    by (simp add: sample_defs date_defs in_window_def)
  have h2: "\<not> (\<exists>i\<in>set [granule_d, granule_e]. in_window targetDate (advance targetDate 1) i)"
    by (simp add: sample_defs date_defs in_window_def)
  show ?thesis
    using h1 h2
      on_day_exact_precedence[of catalogue targetDate onFallbackNearestDays]
      on_day_exact_precedence[of "[granule_d, granule_e]" targetDate onFallbackNearestDays]
    by blast
qed

text \<open>
  C2. The key of the nearest pool is \<open>absDiffDays * 1000 + roiCloud\<close>, where
  \<open>absDiffDays\<close> is the time difference to the target in days, a fraction, and not the
  number of calendar days. Of two granules that are both two days from the target date
  2025-11-30, one of 2025-11-28 05:00 UTC with cloud mean 60 and one of 2025-12-02 05:00
  UTC with cloud mean 5, the selection takes the cloudy one of 28 November: its distance
  is 43/24 days against 53/24, and the 417 points of key between them outweigh any
  difference of cloud mean. At equal day-distance the lower cloud mean does not win.
\<close>

theorem nearest_equal_day_distance_prefers_cloudy:
  "format_ymd targetDate = (2025, 11, 30)
   \<and> time_start granule_nov28 = Some 1764306000000
   \<and> format_ymd 1764306000000 = (2025, 11, 28)
   \<and> time_start granule_dec2 = Some 1764651600000
   \<and> format_ymd 1764651600000 = (2025, 12, 2)
   \<and> roiCloud (addMetrics (addCloudProb granule_nov28)) = Some 60
   \<and> roiCloud (addMetrics (addCloudProb granule_dec2)) = Some 5
   \<and> tier (nearest_pool [granule_dec2, granule_nov28] targetDate onFallbackNearestDays)
       = [addSortKey targetDate (addMetrics (addCloudProb granule_dec2)),
          addSortKey targetDate (addMetrics (addCloudProb granule_nov28))]
   \<and> absDiffDays (addSortKey targetDate (addMetrics (addCloudProb granule_nov28))) = Some (43 / 24)
   \<and> absDiffDays (addSortKey targetDate (addMetrics (addCloudProb granule_dec2))) = Some (53 / 24)
   \<and> onImg [granule_dec2, granule_nov28]
       = Some ((addSortKey targetDate (addMetrics (addCloudProb granule_nov28)))
                 \<lparr>usedExactOnDay := Some False\<rparr>)"
proof -
  have f0: "format_ymd targetDate = (2025, 11, 30)" by code_simp
  have t1: "time_start granule_nov28 = Some 1764306000000"
    by (simp add: sample_defs date_defs)
  have f1: "format_ymd 1764306000000 = (2025, 11, 28)" by code_simp
  have t2: "time_start granule_dec2 = Some 1764651600000"
    by (simp add: sample_defs date_defs)
  have f2: "format_ymd 1764651600000 = (2025, 12, 2)" by code_simp
  have c1: "roiCloud (addMetrics (addCloudProb granule_nov28)) = Some 60"
    by (simp add: sample_defs score_defs Let_def)
  have c2: "roiCloud (addMetrics (addCloudProb granule_dec2)) = Some 5"
    by (simp add: sample_defs score_defs Let_def)
  have p: "tier (nearest_pool [granule_dec2, granule_nov28] targetDate onFallbackNearestDays)
       = [addSortKey targetDate (addMetrics (addCloudProb granule_dec2)),
          addSortKey targetDate (addMetrics (addCloudProb granule_nov28))]"
    by (simp add: key_defs sample_defs date_defs score_defs sel_defs Let_def)
  have d1: "absDiffDays (addSortKey targetDate (addMetrics (addCloudProb granule_nov28))) = Some (43 / 24)"
    by (simp add: key_defs sample_defs date_defs score_defs Let_def)
  have d2: "absDiffDays (addSortKey targetDate (addMetrics (addCloudProb granule_dec2))) = Some (53 / 24)"
    by (simp add: key_defs sample_defs date_defs score_defs Let_def)
  have r: "onImg [granule_dec2, granule_nov28]
       = Some ((addSortKey targetDate (addMetrics (addCloudProb granule_nov28)))
                 \<lparr>usedExactOnDay := Some False\<rparr>)"
    by (simp add: key_defs sample_defs date_defs score_defs sel_defs Let_def)
  from f0 t1 f1 t2 f2 c1 c2 p d1 d2 r show ?thesis by blast
qed

text \<open>
  C3. With no candidate in the window, \<open>selectMinCloudWithTimePref\<close> returns the masked
  placeholder, whose properties \<open>roiCloud\<close>, \<open>cloudFrac\<close> and \<open>validFrac\<close> are
  absent; \<open>selectOnDayExactOrNearest\<close> has no placeholder: with no candidate within the
  fallback days of the target its result is the first image of an empty collection, null.
\<close>

theorem on_day_empty_window_null:
  "nearest_pool [granule_a] targetDate onFallbackNearestDays = []
   \<and> onImg [granule_a] = None
   \<and> onImg [] = None
   \<and> beforeImg [] = Some empty
   \<and> afterImg [] = Some empty
   \<and> roiCloud empty = None \<and> cloudFrac empty = None \<and> validFrac empty = None"
  by (simp add: beforeImg_def afterImg_def key_defs sample_defs date_defs score_defs sel_defs Let_def)

text \<open>
  C4. The quality tiers are nested: the strict tier (valid fraction at least
  \<open>minValidFrac\<close> and cloud fraction at most \<open>maxCloudFrac\<close>) is inside the valid-only
  tier, which is inside the pool, and the tier used for selection is the first of the
  three that is not empty.
\<close>

theorem quality_tiers_monotone:
  "set (qualityFilter col) \<subseteq> set (validOnly col)
   \<and> set (validOnly col) \<subseteq> set col
   \<and> set (qualityFilter col)
       = {i \<in> set col. prop_gte (validFrac i) minValidFrac \<and> prop_lte (cloudFrac i) maxCloudFrac}
   \<and> set (validOnly col) = {i \<in> set col. prop_gte (validFrac i) minValidFrac}
   \<and> tier col = (if qualityFilter col \<noteq> [] then qualityFilter col
                  else if validOnly col \<noteq> [] then validOnly col else col)"
proof -
  have a: "set (qualityFilter col)
       = {i \<in> set col. prop_gte (validFrac i) minValidFrac \<and> prop_lte (cloudFrac i) maxCloudFrac}"
    by (auto simp: qualityFilter_def)
  have b: "set (validOnly col) = {i \<in> set col. prop_gte (validFrac i) minValidFrac}"
    by (auto simp: validOnly_def)
  show ?thesis
    using a b set_qualityFilter_subset[of col] set_validOnly_subset[of col] tier_cases[of col]
    by blast
qed

text \<open>
  C5. In a window with at least one candidate, the image chosen by
  \<open>selectMinCloudWithTimePref\<close> has a \<open>roiCloud\<close> of at most the minimum of \<open>roiCloud\<close>
  over the winning tier plus \<open>cloudTieTolerance\<close>.
\<close>

theorem near_tie_selection_bound:
  assumes "scored_window joined dateStart dateEnd \<noteq> []"
  shows "\<exists>c r m. selectMinCloudWithTimePref joined dateStart dateEnd preferLatest = Some c
           \<and> roiCloud c = Some r
           \<and> aggregate_min roiCloud (tier (scored_window joined dateStart dateEnd)) = Some m
           \<and> (\<exists>x\<in>set (tier (scored_window joined dateStart dateEnd)). roiCloud x = Some m)
           \<and> (\<forall>x\<in>set (tier (scored_window joined dateStart dateEnd)).
                 \<exists>v. roiCloud x = Some v \<and> m \<le> v)
           \<and> r \<le> m + cloudTieTolerance"
proof -
  let ?T = "tier (scored_window joined dateStart dateEnd)"
  from selectMin_chosen[OF assms, of preferLatest] obtain c
    where c: "selectMinCloudWithTimePref joined dateStart dateEnd preferLatest = Some c"
      and mem: "c \<in> set (near_tie ?T)" by blast
  from near_tie_bound[OF mem] obtain m r
    where m: "aggregate_min roiCloud ?T = Some m" and r: "roiCloud c = Some r"
      and le: "r \<le> m + cloudTieTolerance" by blast
  from aggregate_min_Some[OF m]
  have ex: "\<exists>x\<in>set ?T. roiCloud x = Some m"
    and lb: "\<forall>x\<in>set ?T. \<forall>v. roiCloud x = Some v \<longrightarrow> m \<le> v" by blast+
  have "\<forall>x\<in>set ?T. \<exists>v. roiCloud x = Some v \<and> m \<le> v"
    using lb tier_scored_roiCloud[of joined dateStart dateEnd] by blast
  with c r m ex le show ?thesis by blast
qed

theorem near_tie_selection_bound_witness:
  "scored_window catalogue preStart preEnd \<noteq> []
   \<and> (\<exists>c r m. selectMinCloudWithTimePref catalogue preStart preEnd True = Some c
           \<and> roiCloud c = Some r
           \<and> aggregate_min roiCloud (tier (scored_window catalogue preStart preEnd)) = Some m
           \<and> r \<le> m + cloudTieTolerance)"
proof -
  have h: "scored_window catalogue preStart preEnd \<noteq> []"
    by (rule catalogue_before_nonempty)
  from near_tie_selection_bound[OF h, of True] h show ?thesis by blast
qed

text \<open>
  C6. In a window with at least one candidate, \<open>selectMinCloudWithTimePref\<close> returns a
  member of the near-tie set whose acquisition time is the latest of that set when
  \<open>preferLatest\<close> holds and the earliest otherwise; \<open>beforeImg\<close> is the call with
  \<open>preferLatest = true\<close> on the before-window and so the latest of its near-tie set,
  \<open>afterImg\<close> the call with \<open>preferLatest = false\<close> on the after-window and so the
  earliest of its near-tie set.
\<close>

theorem time_preference_in_near_tie:
  "(scored_window joined dateStart dateEnd \<noteq> [] \<longrightarrow>
      (\<exists>c t. selectMinCloudWithTimePref joined dateStart dateEnd preferLatest = Some c
           \<and> c \<in> set (near_tie (tier (scored_window joined dateStart dateEnd)))
           \<and> time_start c = Some t
           \<and> (\<forall>x\<in>set (near_tie (tier (scored_window joined dateStart dateEnd))).
                 \<exists>u. time_start x = Some u \<and> (if preferLatest then u \<le> t else t \<le> u))))
   \<and> (scored_window joined preStart preEnd \<noteq> [] \<longrightarrow>
      (\<exists>c t. beforeImg joined = Some c
           \<and> c \<in> set (near_tie (tier (scored_window joined preStart preEnd)))
           \<and> time_start c = Some t
           \<and> (\<forall>x\<in>set (near_tie (tier (scored_window joined preStart preEnd))).
                 \<exists>u. time_start x = Some u \<and> u \<le> t)))
   \<and> (scored_window joined postStart postEnd \<noteq> [] \<longrightarrow>
      (\<exists>c t. afterImg joined = Some c
           \<and> c \<in> set (near_tie (tier (scored_window joined postStart postEnd)))
           \<and> time_start c = Some t
           \<and> (\<forall>x\<in>set (near_tie (tier (scored_window joined postStart postEnd))).
                 \<exists>u. time_start x = Some u \<and> t \<le> u)))"
proof (intro conjI impI)
  assume "scored_window joined dateStart dateEnd \<noteq> []"
  then show "\<exists>c t. selectMinCloudWithTimePref joined dateStart dateEnd preferLatest = Some c
           \<and> c \<in> set (near_tie (tier (scored_window joined dateStart dateEnd)))
           \<and> time_start c = Some t
           \<and> (\<forall>x\<in>set (near_tie (tier (scored_window joined dateStart dateEnd))).
                 \<exists>u. time_start x = Some u \<and> (if preferLatest then u \<le> t else t \<le> u))"
    by (rule selectMin_time_pref)
next
  assume "scored_window joined preStart preEnd \<noteq> []"
  from selectMin_time_pref[OF this, of True]
  show "\<exists>c t. beforeImg joined = Some c
           \<and> c \<in> set (near_tie (tier (scored_window joined preStart preEnd)))
           \<and> time_start c = Some t
           \<and> (\<forall>x\<in>set (near_tie (tier (scored_window joined preStart preEnd))).
                 \<exists>u. time_start x = Some u \<and> u \<le> t)"
    by (simp add: beforeImg_def)
next
  assume "scored_window joined postStart postEnd \<noteq> []"
  from selectMin_time_pref[OF this, of False]
  show "\<exists>c t. afterImg joined = Some c
           \<and> c \<in> set (near_tie (tier (scored_window joined postStart postEnd)))
           \<and> time_start c = Some t
           \<and> (\<forall>x\<in>set (near_tie (tier (scored_window joined postStart postEnd))).
                 \<exists>u. time_start x = Some u \<and> t \<le> u)"
    by (simp add: afterImg_def)
qed

theorem time_preference_in_near_tie_witness:
  "scored_window catalogue preStart preEnd \<noteq> []
   \<and> near_tie (tier (scored_window catalogue preStart preEnd))
       = [addMetrics (addCloudProb granule_a), addMetrics (addCloudProb granule_b)]
   \<and> time_start (addMetrics (addCloudProb granule_a)) = Some 1764046800000
   \<and> time_start (addMetrics (addCloudProb granule_b)) = Some 1764306000000
   \<and> (\<exists>c. beforeImg catalogue = Some c \<and> time_start c = Some 1764306000000)
   \<and> scored_window (granule_g # catalogue) postStart postEnd \<noteq> []
   \<and> near_tie (tier (scored_window (granule_g # catalogue) postStart postEnd))
       = [addMetrics (addCloudProb granule_g), addMetrics (addCloudProb granule_e)]
   \<and> time_start (addMetrics (addCloudProb granule_g)) = Some 1764824400000
   \<and> time_start (addMetrics (addCloudProb granule_e)) = Some 1764651614000
   \<and> (\<exists>c. afterImg (granule_g # catalogue) = Some c \<and> time_start c = Some 1764651614000)"
proof -
  have b: "scored_window catalogue preStart preEnd \<noteq> []"
    by (rule catalogue_before_nonempty)
  have nb: "near_tie (tier (scored_window catalogue preStart preEnd))
       = [addMetrics (addCloudProb granule_a), addMetrics (addCloudProb granule_b)]"
    by (simp add: sample_defs date_defs score_defs sel_defs Let_def)
  have ta: "time_start (addMetrics (addCloudProb granule_a)) = Some 1764046800000"
    by (simp add: sample_defs date_defs score_defs Let_def)
  have tb: "time_start (addMetrics (addCloudProb granule_b)) = Some 1764306000000"
    by (simp add: sample_defs date_defs score_defs Let_def)
  have a: "scored_window (granule_g # catalogue) postStart postEnd \<noteq> []"
    by (simp add: scored_window_def filterDate_def in_window_def sample_defs date_defs)
  have na: "near_tie (tier (scored_window (granule_g # catalogue) postStart postEnd))
       = [addMetrics (addCloudProb granule_g), addMetrics (addCloudProb granule_e)]"
    by (simp add: sample_defs date_defs score_defs sel_defs Let_def)
  have tg: "time_start (addMetrics (addCloudProb granule_g)) = Some 1764824400000"
    by (simp add: sample_defs date_defs score_defs Let_def)
  have te: "time_start (addMetrics (addCloudProb granule_e)) = Some 1764651614000"
    by (simp add: sample_defs date_defs score_defs Let_def)
  from time_preference_in_near_tie[of catalogue preStart preEnd True] b
  obtain c t where c: "beforeImg catalogue = Some c"
    and ct: "time_start c = Some t"
    and cm: "c \<in> set (near_tie (tier (scored_window catalogue preStart preEnd)))"
    and cu: "\<forall>x\<in>set (near_tie (tier (scored_window catalogue preStart preEnd))).
                 \<exists>u. time_start x = Some u \<and> u \<le> t" by blast
  from cm cu ct ta tb have "t = 1764306000000" unfolding nb by auto
  with c ct have before: "\<exists>c. beforeImg catalogue = Some c \<and> time_start c = Some 1764306000000"
    by blast
  from time_preference_in_near_tie[of "granule_g # catalogue" preStart preEnd True] a
  obtain d s where d: "afterImg (granule_g # catalogue) = Some d"
    and ds: "time_start d = Some s"
    and dm: "d \<in> set (near_tie (tier (scored_window (granule_g # catalogue) postStart postEnd)))"
    and du: "\<forall>x\<in>set (near_tie (tier (scored_window (granule_g # catalogue) postStart postEnd))).
                 \<exists>u. time_start x = Some u \<and> s \<le> u" by blast
  from dm du ds tg te have "s = 1764651614000" unfolding na by auto
  with d ds have after: "\<exists>c. afterImg (granule_g # catalogue) = Some c \<and> time_start c = Some 1764651614000"
    by blast
  from b nb ta tb before a na tg te after show ?thesis by blast
qed

text \<open>
  C7. The before-window is \<open>[targetDate - preLookbackDays, targetDate)\<close>, that is
  \<open>[2025-10-31, 2025-11-30)\<close>, closed on the left and open on the right: every
  candidate of the window, and so the image chosen for BEFORE, was acquired on or after
  2025-10-31 and strictly before the target date.
\<close>

theorem before_window_half_open:
  "preStart = advance targetDate (- preLookbackDays)
   \<and> preEnd = targetDate
   \<and> preStart = ee_Date 2025 10 31
   \<and> preEnd = ee_Date 2025 11 30
   \<and> format_ymd preStart = (2025, 10, 31)
   \<and> format_ymd preEnd = (2025, 11, 30)
   \<and> (\<forall>i. in_window preStart preEnd i
          \<longleftrightarrow> (\<exists>t. time_start i = Some t \<and> ee_Date 2025 10 31 \<le> t \<and> t < ee_Date 2025 11 30))
   \<and> (\<forall>c\<in>set (scored_window joined preStart preEnd).
          \<exists>t. time_start c = Some t \<and> ee_Date 2025 10 31 \<le> t \<and> t < targetDate)
   \<and> (\<forall>c t. beforeImg joined = Some c \<and> time_start c = Some t
          \<longrightarrow> ee_Date 2025 10 31 \<le> t \<and> t < targetDate)"
proof -
  have s: "preStart = ee_Date 2025 10 31" by (simp add: date_defs)
  have e: "preEnd = ee_Date 2025 11 30" by (simp add: date_defs)
  have f1: "format_ymd preStart = (2025, 10, 31)" unfolding s by code_simp
  have f2: "format_ymd preEnd = (2025, 11, 30)" unfolding e by code_simp
  have w: "\<forall>i. in_window preStart preEnd i
          \<longleftrightarrow> (\<exists>t. time_start i = Some t \<and> ee_Date 2025 10 31 \<le> t \<and> t < ee_Date 2025 11 30)"
    unfolding s e by (auto simp: in_window_def split: option.splits)
  have pool: "\<forall>c\<in>set (scored_window joined preStart preEnd).
          \<exists>t. time_start c = Some t \<and> ee_Date 2025 10 31 \<le> t \<and> t < targetDate"
    using scored_window_time[of _ joined preStart preEnd] unfolding s preEnd_def by blast
  have sel: "\<forall>c t. beforeImg joined = Some c \<and> time_start c = Some t
          \<longrightarrow> ee_Date 2025 10 31 \<le> t \<and> t < targetDate"
  proof (intro allI impI)
    fix c t assume a: "beforeImg joined = Some c \<and> time_start c = Some t"
    show "ee_Date 2025 10 31 \<le> t \<and> t < targetDate"
    proof (cases "scored_window joined preStart preEnd = []")
      case True
      with a have "c = empty" by (simp add: beforeImg_def selectMin_unfold)
      with a show ?thesis by (simp add: empty_def)
    next
      case False
      from selectMin_chosen[OF False, of True] a
      have "c \<in> set (near_tie (tier (scored_window joined preStart preEnd)))"
        by (auto simp: beforeImg_def)
      then have "c \<in> set (scored_window joined preStart preEnd)"
        using near_tie_subset set_tier_subset by blast
      with pool a show ?thesis by auto
    qed
  qed
  show ?thesis
    using s e f1 f2 w pool sel by (simp add: preStart_def preEnd_def)
qed

theorem before_window_half_open_witness:
  "beforeImg (granule_c # catalogue) = Some (addMetrics (addCloudProb granule_b))
   \<and> time_start (addMetrics (addCloudProb granule_b)) = Some 1764306000000
   \<and> time_start granule_c = Some 1764478800000
   \<and> ee_Date 2025 10 31 \<le> 1764306000000 \<and> (1764306000000 :: int) < targetDate"
proof -
  have b: "beforeImg (granule_c # catalogue) = Some (addMetrics (addCloudProb granule_b))"
    by (simp add: beforeImg_def sample_defs date_defs score_defs sel_defs Let_def)
  have t: "time_start (addMetrics (addCloudProb granule_b)) = Some 1764306000000"
    by (simp add: sample_defs date_defs score_defs Let_def)
  have c: "time_start granule_c = Some 1764478800000"
    by (simp add: sample_defs date_defs)
  from before_window_half_open[of "granule_c # catalogue"] b t c show ?thesis by blast
qed

text \<open>
  C8 (as the code has it). A reduction that yields no value is replaced by the worst
  case (\<open>roiCloud\<close> 100, \<open>cloudFrac\<close> 1, \<open>validFrac\<close> 0); a candidate without a
  cloud-probability image gets the constant band 100, hence \<open>roiCloud\<close> 100 and
  \<open>cloudFrac\<close> 1; a candidate with \<open>cloudFrac\<close> 1 is never in the strict tier. A
  candidate with \<open>roiCloud\<close> 100 is chosen by \<open>selectMinCloudWithTimePref\<close> only if every
  candidate of the winning tier has a \<open>roiCloud\<close> of at least \<open>100 - cloudTieTolerance\<close>,
  from the exact-day pool only if every candidate of its winning tier has a \<open>roiCloud\<close>
  of at least 100, and from the nearest pool only if every candidate of its winning tier
  that is not farther from the target has a \<open>roiCloud\<close> of at least 100.
\<close>

theorem worst_case_defaults:
  "(reduce_band (\<lambda>r. r) (probability img) = None \<longrightarrow> roiCloud (addMetrics img) = Some 100)
   \<and> (reduce_band (raster_gt cloudProbThresh) (probability img) = None
        \<longrightarrow> cloudFrac (addMetrics img) = Some 1)
   \<and> (reduce_band raster_mask (B2 img) = None \<longrightarrow> validFrac (addMetrics img) = Some 0)
   \<and> (cloudprob u = None \<longrightarrow>
        probability (addCloudProb u) = Some (Constant 100)
        \<and> roiCloud (addMetrics (addCloudProb u)) = Some 100
        \<and> cloudFrac (addMetrics (addCloudProb u)) = Some 1)
   \<and> (cloudFrac s = Some 1 \<longrightarrow> s \<notin> set (qualityFilter col))
   \<and> (\<forall>c x v. selectMinCloudWithTimePref joined dateStart dateEnd preferLatest = Some c
          \<and> roiCloud c = Some 100
          \<and> x \<in> set (tier (scored_window joined dateStart dateEnd)) \<and> roiCloud x = Some v
          \<longrightarrow> 100 - cloudTieTolerance \<le> v)
   \<and> (\<forall>c x v. (\<exists>i\<in>set joined. in_window tDate (advance tDate 1) i)
          \<and> selectOnDayExactOrNearest joined tDate nearestDays = Some c
          \<and> roiCloud c = Some 100
          \<and> x \<in> set (tier (exact_pool joined tDate)) \<and> roiCloud x = Some v
          \<longrightarrow> 100 \<le> v)
   \<and> (\<forall>c x dc dx v. \<not> (\<exists>i\<in>set joined. in_window tDate (advance tDate 1) i)
          \<and> selectOnDayExactOrNearest joined tDate nearestDays = Some c
          \<and> roiCloud c = Some 100 \<and> absDiffDays c = Some dc
          \<and> x \<in> set (tier (nearest_pool joined tDate nearestDays))
          \<and> absDiffDays x = Some dx \<and> roiCloud x = Some v \<and> dx \<le> dc
          \<longrightarrow> 100 \<le> v)"
proof -
  have a: "reduce_band (\<lambda>r. r) (probability img) = None \<longrightarrow> roiCloud (addMetrics img) = Some 100"
    by (simp add: addMetrics_def or_default_def Let_def)
  have b: "reduce_band (raster_gt cloudProbThresh) (probability img) = None
        \<longrightarrow> cloudFrac (addMetrics img) = Some 1"
    by (simp add: addMetrics_def or_default_def Let_def)
  have c: "reduce_band raster_mask (B2 img) = None \<longrightarrow> validFrac (addMetrics img) = Some 0"
    by (simp add: addMetrics_def or_default_def Let_def)
  have d: "cloudprob u = None \<longrightarrow>
        probability (addCloudProb u) = Some (Constant 100)
        \<and> roiCloud (addMetrics (addCloudProb u)) = Some 100
        \<and> cloudFrac (addMetrics (addCloudProb u)) = Some 1"
    using unscored_metrics[of u] by blast
  have d': "cloudFrac s = Some 1 \<longrightarrow> s \<notin> set (qualityFilter col)"
    using not_strict_of_cloudFrac_1[of s col] by blast
  have e: "\<forall>c x v. selectMinCloudWithTimePref joined dateStart dateEnd preferLatest = Some c
          \<and> roiCloud c = Some 100
          \<and> x \<in> set (tier (scored_window joined dateStart dateEnd)) \<and> roiCloud x = Some v
          \<longrightarrow> 100 - cloudTieTolerance \<le> v"
    using selectMin_roiCloud_100 by blast
  have f: "\<forall>c x v. (\<exists>i\<in>set joined. in_window tDate (advance tDate 1) i)
          \<and> selectOnDayExactOrNearest joined tDate nearestDays = Some c
          \<and> roiCloud c = Some 100
          \<and> x \<in> set (tier (exact_pool joined tDate)) \<and> roiCloud x = Some v
          \<longrightarrow> 100 \<le> v"
  proof (intro allI impI)
    fix c x v
    assume h: "(\<exists>i\<in>set joined. in_window tDate (advance tDate 1) i)
          \<and> selectOnDayExactOrNearest joined tDate nearestDays = Some c
          \<and> roiCloud c = Some 100
          \<and> x \<in> set (tier (exact_pool joined tDate)) \<and> roiCloud x = Some v"
    then have ne: "exact_pool joined tDate \<noteq> []"
      by (simp add: exact_pool_def scored_window_empty_iff)
    from selectOnDay_exact_chosen[OF ne, of nearestDays] obtain c0 r
      where c0: "selectOnDayExactOrNearest joined tDate nearestDays
                   = Some (c0\<lparr>usedExactOnDay := Some True\<rparr>)"
        and r: "roiCloud c0 = Some r"
        and lb: "\<forall>x\<in>set (tier (exact_pool joined tDate)). \<exists>v. roiCloud x = Some v \<and> r \<le> v"
      by blast
    from c0 h have "c = c0\<lparr>usedExactOnDay := Some True\<rparr>" by simp
    with r h have "r = 100" by simp
    with lb h show "100 \<le> v" by fastforce
  qed
  have g: "\<forall>c x dc dx v. \<not> (\<exists>i\<in>set joined. in_window tDate (advance tDate 1) i)
          \<and> selectOnDayExactOrNearest joined tDate nearestDays = Some c
          \<and> roiCloud c = Some 100 \<and> absDiffDays c = Some dc
          \<and> x \<in> set (tier (nearest_pool joined tDate nearestDays))
          \<and> absDiffDays x = Some dx \<and> roiCloud x = Some v \<and> dx \<le> dc
          \<longrightarrow> 100 \<le> v"
  proof (intro allI impI)
    fix c x dc dx v
    assume h: "\<not> (\<exists>i\<in>set joined. in_window tDate (advance tDate 1) i)
          \<and> selectOnDayExactOrNearest joined tDate nearestDays = Some c
          \<and> roiCloud c = Some 100 \<and> absDiffDays c = Some dc
          \<and> x \<in> set (tier (nearest_pool joined tDate nearestDays))
          \<and> absDiffDays x = Some dx \<and> roiCloud x = Some v \<and> dx \<le> dc"
    then have e0: "exact_pool joined tDate = []"
      by (simp add: exact_pool_def scored_window_empty_iff)
    from h show "100 \<le> v"
      using nearest_roiCloud_100[OF e0, of nearestDays c dc x dx v] by blast
  qed
  from a b c d d' e f g show ?thesis by blast
qed

theorem worst_case_defaults_witness:
  "reduce_band (\<lambda>r. r) (probability (addCloudProb granule_outside)) = None
   \<and> reduce_band (raster_gt cloudProbThresh) (probability (addCloudProb granule_outside)) = None
   \<and> reduce_band raster_mask (B2 (addCloudProb granule_outside)) = None
   \<and> roiCloud (addMetrics (addCloudProb granule_outside)) = Some 100
   \<and> cloudFrac (addMetrics (addCloudProb granule_outside)) = Some 1
   \<and> validFrac (addMetrics (addCloudProb granule_outside)) = Some 0
   \<and> cloudprob granule_unscored = None
   \<and> roiCloud (addMetrics (addCloudProb granule_unscored)) = Some 100
   \<and> cloudFrac (addMetrics (addCloudProb granule_masked)) = Some 1
   \<and> addMetrics (addCloudProb granule_masked)
        \<notin> set (qualityFilter (scored_window [granule_cloudy, granule_masked, granule_on_masked]
                                  preStart preEnd))
   \<and> selectMinCloudWithTimePref [granule_cloudy, granule_masked, granule_on_masked]
          preStart preEnd True
        = Some (addMetrics (addCloudProb granule_masked))
   \<and> roiCloud (addMetrics (addCloudProb granule_masked)) = Some 100
   \<and> addMetrics (addCloudProb granule_cloudy)
        \<in> set (tier (scored_window [granule_cloudy, granule_masked, granule_on_masked]
                        preStart preEnd))
   \<and> roiCloud (addMetrics (addCloudProb granule_cloudy)) = Some 98
   \<and> 100 - cloudTieTolerance \<le> 98
   \<and> (\<exists>i\<in>set [granule_cloudy, granule_masked, granule_on_masked].
          in_window targetDate (advance targetDate 1) i)
   \<and> selectOnDayExactOrNearest [granule_cloudy, granule_masked, granule_on_masked]
          targetDate onFallbackNearestDays
        = Some ((addMetrics (addCloudProb granule_on_masked))\<lparr>usedExactOnDay := Some True\<rparr>)
   \<and> addMetrics (addCloudProb granule_on_masked)
        \<in> set (tier (exact_pool [granule_cloudy, granule_masked, granule_on_masked] targetDate))
   \<and> \<not> (\<exists>i\<in>set [granule_near_masked, granule_near_scored].
            in_window targetDate (advance targetDate 1) i)
   \<and> selectOnDayExactOrNearest [granule_near_masked, granule_near_scored]
          targetDate onFallbackNearestDays
        = Some ((addSortKey targetDate (addMetrics (addCloudProb granule_near_masked)))
                  \<lparr>usedExactOnDay := Some False\<rparr>)
   \<and> addSortKey targetDate (addMetrics (addCloudProb granule_near_masked))
        \<in> set (tier (nearest_pool [granule_near_masked, granule_near_scored]
                        targetDate onFallbackNearestDays))
   \<and> absDiffDays (addSortKey targetDate (addMetrics (addCloudProb granule_near_masked)))
        = Some (29 / 24)
   \<and> (100 :: real) \<le> 100"
proof -
  let ?J = "[granule_cloudy, granule_masked, granule_on_masked]"
  let ?N = "[granule_near_masked, granule_near_scored]"
  let ?k = "addSortKey targetDate (addMetrics (addCloudProb granule_near_masked))"
  have r1: "reduce_band (\<lambda>r. r) (probability (addCloudProb granule_outside)) = None"
    by (simp add: sample_defs score_defs Let_def)
  have r2: "reduce_band (raster_gt cloudProbThresh) (probability (addCloudProb granule_outside)) = None"
    by (simp add: sample_defs score_defs Let_def)
  have r3: "reduce_band raster_mask (B2 (addCloudProb granule_outside)) = None"
    by (simp add: sample_defs score_defs Let_def)
  have u: "cloudprob granule_unscored = None"
    by (simp add: sample_defs)
  have cf: "cloudFrac (addMetrics (addCloudProb granule_masked)) = Some 1"
    by (simp add: sample_defs score_defs Let_def)
  have sel: "selectMinCloudWithTimePref ?J preStart preEnd True
        = Some (addMetrics (addCloudProb granule_masked))"
    by (simp add: sample_defs date_defs score_defs sel_defs Let_def)
  have c100: "roiCloud (addMetrics (addCloudProb granule_masked)) = Some 100"
    by (simp add: sample_defs score_defs Let_def)
  have mem: "addMetrics (addCloudProb granule_cloudy)
        \<in> set (tier (scored_window ?J preStart preEnd))"
    by (simp add: sample_defs date_defs score_defs sel_defs Let_def)
  have c98: "roiCloud (addMetrics (addCloudProb granule_cloudy)) = Some 98"
    by (simp add: sample_defs score_defs Let_def)
  have ex: "\<exists>i\<in>set ?J. in_window targetDate (advance targetDate 1) i"
    by (simp add: sample_defs date_defs in_window_def)
  have on: "selectOnDayExactOrNearest ?J targetDate onFallbackNearestDays
        = Some ((addMetrics (addCloudProb granule_on_masked))\<lparr>usedExactOnDay := Some True\<rparr>)"
    by (simp add: key_defs sample_defs date_defs score_defs sel_defs Let_def)
  have onmem: "addMetrics (addCloudProb granule_on_masked)
        \<in> set (tier (exact_pool ?J targetDate))"
    by (simp add: key_defs sample_defs date_defs score_defs sel_defs Let_def)
  have nex: "\<not> (\<exists>i\<in>set ?N. in_window targetDate (advance targetDate 1) i)"
    by (simp add: sample_defs date_defs in_window_def)
  have nsel: "selectOnDayExactOrNearest ?N targetDate onFallbackNearestDays
        = Some (?k\<lparr>usedExactOnDay := Some False\<rparr>)"
    by (simp add: key_defs sample_defs date_defs score_defs sel_defs Let_def)
  have nmem: "?k \<in> set (tier (nearest_pool ?N targetDate onFallbackNearestDays))"
    by (simp add: key_defs sample_defs date_defs score_defs sel_defs Let_def)
  have nd: "absDiffDays ?k = Some (29 / 24)"
    by (simp add: key_defs sample_defs date_defs score_defs Let_def)
  note w1 = worst_case_defaults[of "addCloudProb granule_outside" granule_unscored
      "addMetrics (addCloudProb granule_masked)"
      "scored_window ?J preStart preEnd" ?J preStart preEnd True
      targetDate onFallbackNearestDays]
  note w2 = worst_case_defaults[of "addCloudProb granule_outside" granule_unscored
      "addMetrics (addCloudProb granule_masked)"
      "scored_window ?J preStart preEnd" ?N preStart preEnd True
      targetDate onFallbackNearestDays]
  have t: "100 - cloudTieTolerance \<le> 98" by (simp add: cloudTieTolerance_def)
  from w1 r1 r2 r3 have m: "roiCloud (addMetrics (addCloudProb granule_outside)) = Some 100"
    "cloudFrac (addMetrics (addCloudProb granule_outside)) = Some 1"
    "validFrac (addMetrics (addCloudProb granule_outside)) = Some 0" by blast+
  from w1 u have m2: "roiCloud (addMetrics (addCloudProb granule_unscored)) = Some 100" by blast
  from w2 cf have m3: "addMetrics (addCloudProb granule_masked)
        \<notin> set (qualityFilter (scored_window ?J preStart preEnd))" by blast
  from r1 r2 r3 m u m2 cf m3 sel c100 mem c98 t ex on onmem nex nsel nmem nd
  show ?thesis by simp
qed

text \<open>
  C8 as stated fails for two of the selections. The cloud-probability raster of a granule
  is masked over the whole export region, so its reductions yield no value and its
  \<open>roiCloud\<close> is the default 100. In the before-window it is later than a scored granule
  with cloud mean 98, inside the tie tolerance, and is chosen. In the nearest pool it is
  one day from the target and a scored granule with cloud mean 10 is two days from it,
  and the nearer one is chosen.
\<close>

theorem unscored_preferred_counterexample:
  "reduce_band (\<lambda>r. r) (probability (addCloudProb granule_masked)) = None
   \<and> roiCloud (addMetrics (addCloudProb granule_masked)) = Some 100
   \<and> roiCloud (addMetrics (addCloudProb granule_cloudy)) = Some 98
   \<and> beforeImg [granule_cloudy, granule_masked]
       = Some (addMetrics (addCloudProb granule_masked))
   \<and> reduce_band (\<lambda>r. r) (probability (addCloudProb granule_near_masked)) = None
   \<and> roiCloud (addMetrics (addCloudProb granule_near_masked)) = Some 100
   \<and> roiCloud (addMetrics (addCloudProb granule_near_scored)) = Some 10
   \<and> onImg [granule_near_masked, granule_near_scored]
       = Some ((addSortKey targetDate (addMetrics (addCloudProb granule_near_masked)))
                 \<lparr>usedExactOnDay := Some False\<rparr>)"
proof -
  have a: "reduce_band (\<lambda>r. r) (probability (addCloudProb granule_masked)) = None"
    by (simp add: sample_defs score_defs Let_def)
  have b: "roiCloud (addMetrics (addCloudProb granule_masked)) = Some 100"
    by (simp add: sample_defs score_defs Let_def)
  have c: "roiCloud (addMetrics (addCloudProb granule_cloudy)) = Some 98"
    by (simp add: sample_defs score_defs Let_def)
  have d: "beforeImg [granule_cloudy, granule_masked]
       = Some (addMetrics (addCloudProb granule_masked))"
    by (simp add: beforeImg_def sample_defs date_defs score_defs sel_defs Let_def)
  have e: "reduce_band (\<lambda>r. r) (probability (addCloudProb granule_near_masked)) = None"
    by (simp add: sample_defs score_defs Let_def)
  have f: "roiCloud (addMetrics (addCloudProb granule_near_masked)) = Some 100"
    by (simp add: sample_defs score_defs Let_def)
  have g: "roiCloud (addMetrics (addCloudProb granule_near_scored)) = Some 10"
    by (simp add: sample_defs score_defs Let_def)
  have h: "onImg [granule_near_masked, granule_near_scored]
       = Some ((addSortKey targetDate (addMetrics (addCloudProb granule_near_masked)))
                 \<lparr>usedExactOnDay := Some False\<rparr>)"
    by (simp add: key_defs sample_defs date_defs score_defs sel_defs Let_def)
  from a b c d e f g h show ?thesis by blast
qed

text \<open>
  C10. The tolerance is not negative, so in a window with at least one candidate the
  candidate that attains the minimum of \<open>roiCloud\<close> over the winning tier is in the
  near-tie set: the set is not empty, the first image of the sorted set exists, and it is
  what \<open>selectMinCloudWithTimePref\<close> returns.
\<close>

theorem near_tie_set_nonempty:
  "0 \<le> cloudTieTolerance
   \<and> (scored_window joined dateStart dateEnd \<noteq> [] \<longrightarrow>
        (\<exists>m x. aggregate_min roiCloud (tier (scored_window joined dateStart dateEnd)) = Some m
              \<and> x \<in> set (near_tie (tier (scored_window joined dateStart dateEnd)))
              \<and> roiCloud x = Some m)
        \<and> near_tie (tier (scored_window joined dateStart dateEnd)) \<noteq> []
        \<and> (\<exists>c. first (sort_by time_start (\<not> preferLatest)
                        (near_tie (tier (scored_window joined dateStart dateEnd)))) = Some c
               \<and> selectMinCloudWithTimePref joined dateStart dateEnd preferLatest = Some c))"
proof -
  let ?W = "scored_window joined dateStart dateEnd"
  have tol: "0 \<le> cloudTieTolerance" by (simp add: cloudTieTolerance_def)
  have "?W \<noteq> [] \<longrightarrow>
        (\<exists>m x. aggregate_min roiCloud (tier ?W) = Some m \<and> x \<in> set (near_tie (tier ?W))
              \<and> roiCloud x = Some m)
        \<and> near_tie (tier ?W) \<noteq> []
        \<and> (\<exists>c. first (sort_by time_start (\<not> preferLatest) (near_tie (tier ?W))) = Some c
               \<and> selectMinCloudWithTimePref joined dateStart dateEnd preferLatest = Some c)"
  proof
    assume ne: "?W \<noteq> []"
    then have tne: "tier ?W \<noteq> []" by (simp add: tier_empty_iff)
    from near_tie_nonempty[OF tne tier_scored_roiCloud]
    have a: "\<exists>m x. aggregate_min roiCloud (tier ?W) = Some m \<and> x \<in> set (near_tie (tier ?W))
              \<and> roiCloud x = Some m" .
    then have b: "near_tie (tier ?W) \<noteq> []" by auto
    then have "first (sort_by time_start (\<not> preferLatest) (near_tie (tier ?W))) \<noteq> None"
      by (simp add: first_sort_by_None)
    then obtain c where "first (sort_by time_start (\<not> preferLatest) (near_tie (tier ?W))) = Some c"
      by auto
    with ne have "\<exists>c. first (sort_by time_start (\<not> preferLatest) (near_tie (tier ?W))) = Some c
               \<and> selectMinCloudWithTimePref joined dateStart dateEnd preferLatest = Some c"
      by (simp add: selectMin_unfold)
    with a b show "(\<exists>m x. aggregate_min roiCloud (tier ?W) = Some m \<and> x \<in> set (near_tie (tier ?W))
              \<and> roiCloud x = Some m)
        \<and> near_tie (tier ?W) \<noteq> []
        \<and> (\<exists>c. first (sort_by time_start (\<not> preferLatest) (near_tie (tier ?W))) = Some c
               \<and> selectMinCloudWithTimePref joined dateStart dateEnd preferLatest = Some c)"
      by blast
  qed
  with tol show ?thesis by blast
qed

theorem near_tie_set_nonempty_witness:
  "scored_window catalogue preStart preEnd \<noteq> []
   \<and> near_tie (tier (scored_window catalogue preStart preEnd)) \<noteq> []
   \<and> (\<exists>c. selectMinCloudWithTimePref catalogue preStart preEnd True = Some c)"
proof -
  have h: "scored_window catalogue preStart preEnd \<noteq> []"
    by (rule catalogue_before_nonempty)
  from near_tie_set_nonempty[of catalogue preStart preEnd True] h show ?thesis by blast
qed

end
